theory Spec2Isabelle
  imports Main "HOL-Library.Word"
begin

unbundle bit_operations_syntax

section \<open>Bytes, the serial line and Python's \<open>bytes.replace\<close>\<close>

text \<open>
  The utility works on Python \<open>bytes\<close> and \<open>bytearray\<close> values: sequences of integers
  in \<open>0..255\<close>. A byte is an \<open>8 word\<close>, a byte string a list of them.
\<close>

type_synonym byte = "8 word"

text \<open>
  The serial object (\<open>serial.Serial\<close>) as the code uses it: \<open>rx\<close> holds the bytes
  the device will still deliver, in order; \<open>tx\<close> the bytes the host has written.
\<close>

record serial =
  rx :: "byte list"
  tx :: "byte list"

definition serial_write :: "serial \<Rightarrow> byte list \<Rightarrow> serial" where
  "serial_write s data = s\<lparr>tx := tx s @ data\<rparr>"

text \<open>
  \<open>msg.replace(old, new)\<close>: every non-overlapping occurrence of \<open>old\<close>, found from
  the left, is replaced by \<open>new\<close>. (With an empty \<open>old\<close> Python inserts \<open>new\<close> before
  every byte and at the end.)
\<close>

function bytes_replace :: "byte list \<Rightarrow> byte list \<Rightarrow> byte list \<Rightarrow> byte list" where
  "bytes_replace old new [] = (if old = [] then new else [])"
| "bytes_replace old new (x # xs) =
     (if old = [] then new @ x # bytes_replace old new xs
      else if take (length old) (x # xs) = old
           then new @ bytes_replace old new (drop (length old) (x # xs))
           else x # bytes_replace old new xs)"
  by pat_completeness auto
termination
  by (relation "measure (\<lambda>(old, new, xs). length xs)") auto

section \<open>ASH framer (class \<open>AshProtocolInterface\<close>)\<close>

definition FLAG_BYTE :: "byte list" where
  "FLAG_BYTE = [0x7E]"

definition RANDOMIZE_START :: byte where
  "RANDOMIZE_START = 0x42"

definition RANDOMIZE_SEQ :: byte where
  "RANDOMIZE_SEQ = 0xB8"

text \<open>
  The session object: the serial line it writes to and the two counters that
  \<open>__init__\<close> sets to 0.
\<close>

record ash =
  ash_serial :: serial
  ackNum :: nat
  frmNum :: nat

definition ash_init :: "serial \<Rightarrow> ash" where
  "ash_init s = \<lparr>ash_serial = s, ackNum = 0, frmNum = 0\<rparr>"

text \<open>
  \<open>dataRandomize\<close>: the loop over \<open>frame\<close> with the local \<open>rand\<close>. \<open>rand\<close> starts at
  \<open>0x42\<close> and every update is \<open>rand >> 1\<close>, possibly XORed with \<open>0xB8\<close>, so it never
  leaves \<open>0..255\<close> and is a byte here; \<open>rand % 2\<close> is its lowest bit.
\<close>

fun dataRandomize_loop :: "byte \<Rightarrow> byte list \<Rightarrow> byte list" where
  "dataRandomize_loop rand [] = []"
| "dataRandomize_loop rand (x # frame) =
     (x XOR rand) #
       dataRandomize_loop
         (if unat rand mod 2 \<noteq> 0 then drop_bit 1 rand XOR RANDOMIZE_SEQ else drop_bit 1 rand)
         frame"

definition dataRandomize :: "byte list \<Rightarrow> byte list" where
  "dataRandomize frame = dataRandomize_loop RANDOMIZE_START frame"

text \<open>\<open>revertEscapedBytes\<close> and \<open>replaceReservedBytes\<close>: six \<open>replace\<close> calls in a row each.\<close>

definition revertEscapedBytes :: "byte list \<Rightarrow> byte list" where
  "revertEscapedBytes msg =
     (let msg = bytes_replace [0x7D, 0x5D] [0x7D] msg;
          msg = bytes_replace [0x7D, 0x5E] [0x7E] msg;
          msg = bytes_replace [0x7D, 0x31] [0x11] msg;
          msg = bytes_replace [0x7D, 0x33] [0x13] msg;
          msg = bytes_replace [0x7D, 0x38] [0x18] msg;
          msg = bytes_replace [0x7D, 0x3A] [0x1A] msg
      in msg)"

definition replaceReservedBytes :: "byte list \<Rightarrow> byte list" where
  "replaceReservedBytes msg =
     (let msg = bytes_replace [0x7D] [0x7D, 0x5D] msg;
          msg = bytes_replace [0x7E] [0x7D, 0x5E] msg;
          msg = bytes_replace [0x11] [0x7D, 0x31] msg;
          msg = bytes_replace [0x13] [0x7D, 0x33] msg;
          msg = bytes_replace [0x18] [0x7D, 0x38] msg;
          msg = bytes_replace [0x1A] [0x7D, 0x3A] msg
      in msg)"

text \<open>
  Modelled from the spec: \<open>binascii.crc_hqx(data, value)\<close> is the Python standard
  library's and not part of the source. The spec gives it as CRC-16/CCITT, polynomial
  \<open>0x1021\<close>, with the initial value passed by the caller: each byte is XORed into the
  high half of the 16-bit register, which is then shifted left eight times, XORing the
  polynomial in whenever a 1 is shifted out.
\<close>

definition crc_hqx_shift :: "16 word \<Rightarrow> 16 word" where
  "crc_hqx_shift crc = (if bit crc 15 then push_bit 1 crc XOR 0x1021 else push_bit 1 crc)"

definition crc_hqx_byte :: "byte \<Rightarrow> 16 word \<Rightarrow> 16 word" where
  "crc_hqx_byte b crc =
     crc_hqx_shift (crc_hqx_shift (crc_hqx_shift (crc_hqx_shift
       (crc_hqx_shift (crc_hqx_shift (crc_hqx_shift (crc_hqx_shift
         (crc XOR push_bit 8 (ucast b)))))))))"

definition crc_hqx :: "byte list \<Rightarrow> 16 word \<Rightarrow> 16 word" where
  "crc_hqx data val = fold crc_hqx_byte data val"

text \<open>
  \<open>sendAck(ackNum)\<close>: the control byte \<open>ackNum & 0x07 | 0x80\<close>, the CRC's high and low
  byte, stuffing, the flag; the frame is written to the serial line. The counters of
  the session are not touched.
\<close>

definition sendAck :: "ash \<Rightarrow> byte \<Rightarrow> ash" where
  "sendAck a ack_num =
     (let ack = [(ack_num AND 0x07) OR 0x80];
          crc = crc_hqx ack 0xFFFF;
          ack = ack @ [ucast (drop_bit 8 crc), ucast (crc AND 0xFF)];
          ack = replaceReservedBytes ack;
          ack = ack @ FLAG_BYTE
      in a\<lparr>ash_serial := serial_write (ash_serial a) ack\<rparr>)"

text \<open>
  \<open>ashFrameBuilder(ezsp_frame)\<close>: the control byte from the two counters, both
  counters advanced, the whitened payload, the CRC over control byte and payload,
  stuffing, the flag.
\<close>

definition ashFrameBuilder :: "ash \<Rightarrow> byte list \<Rightarrow> byte list \<times> ash" where
  "ashFrameBuilder a ezsp_frame =
     (let ash_frame = [of_nat (((push_bit 0 (ackNum a) AND 0xFF) OR (push_bit 4 (frmNum a mod 8) AND 0xFF)) AND 0xFF)];
          a = a\<lparr>ackNum := (ackNum a + 1) mod 8\<rparr>;
          a = a\<lparr>frmNum := (frmNum a + 1) mod 8\<rparr>;
          ash_frame = ash_frame @ dataRandomize ezsp_frame;
          crc = crc_hqx ash_frame 0xFFFF;
          ash_frame = ash_frame @ [ucast (drop_bit 8 crc), ucast (crc AND 0xFF)];
          ash_frame = replaceReservedBytes ash_frame;
          ash_frame = ash_frame @ FLAG_BYTE
      in (ash_frame, a))"

section \<open>Exceptions\<close>

text \<open>
  What the code can raise: the \<open>IndexError\<close> of an index out of range, the
  \<open>ValueError\<close> of a \<open>bytearray\<close> element outside \<open>0..255\<close>, the
  \<open>UnboundLocalError\<close> of a local read before its assignment, the \<open>OSError\<close> of
  a file that cannot be opened, and the plain \<open>Exception(message)\<close> of the source's
  own \<open>raise\<close> statements.
\<close>

datatype py_error = IndexError | ValueError | UnboundLocalError | OSError | Exception string

section \<open>EZSP transport (class \<open>EzspProtocolInterface\<close>)\<close>

record ezsp =
  ezspVersion :: nat
  sequenceNum :: nat
  ezsp_ash :: ash

definition INITIAL_EZSP_VERSION :: nat where
  "INITIAL_EZSP_VERSION = 4"

definition ezsp_init :: "serial \<Rightarrow> ezsp" where
  "ezsp_init s = \<lparr>ezspVersion = INITIAL_EZSP_VERSION, sequenceNum = 0, ezsp_ash = ash_init s\<rparr>"

text \<open>
  \<open>ezspFrameBuilder(command)\<close>. \<open>bytearray([self.sequenceNum])\<close> raises unless the
  counter is below 256; \<open>command[0]\<close> raises on an empty command; the three item
  assignments of the version 8 branch hit indices below \<open>4 + len(command)\<close>.
  \<open>command[0]\<close> is one byte, so \<open>command[0] >> 8\<close> is computed on its value as a number.
\<close>

definition ezspFrameBuilder :: "ezsp \<Rightarrow> byte list \<Rightarrow> py_error + (byte list \<times> ezsp)" where
  "ezspFrameBuilder e command =
     (if 256 \<le> sequenceNum e then Inl ValueError
      else
        let ezsp_frame = [of_nat (sequenceNum e)];
            e = e\<lparr>sequenceNum := (sequenceNum e + 1) mod 255\<rparr>;
            ezsp_frame = ezsp_frame @ [0x00];
            ezsp_frame = (if ezspVersion e \<ge> 5 then (ezsp_frame @ [0xFF]) @ [0x00] else ezsp_frame);
            ezsp_frame = ezsp_frame @ command
        in if ezspVersion e \<ge> 8 then
             (case command of
                [] \<Rightarrow> Inl IndexError
              | c # _ \<Rightarrow>
                  Inr (ezsp_frame[2 := 0x01, 3 := c AND 0xFF, 4 := of_nat (drop_bit 8 (unat c))], e))
           else Inr (ezsp_frame, e))"

section \<open>HDLC-Lite framer (class \<open>HdlcLiteProtocolInterface\<close>)\<close>

definition HDLC_FLAG :: byte where
  "HDLC_FLAG = 0x7E"

definition HDLC_ESCAPE :: byte where
  "HDLC_ESCAPE = 0x7D"

definition HDLC_FCS_INIT :: "16 word" where
  "HDLC_FCS_INIT = 0xFFFF"

definition HDLC_FCS_POLY :: "16 word" where
  "HDLC_FCS_POLY = 0x8408"

definition HDLC_FCS_GOOD :: "16 word" where
  "HDLC_FCS_GOOD = 0xF0B8"

text \<open>
  \<open>mkfcstab\<close>: for each byte value the inner \<open>while i\<close> loop runs eight times, each
  time with \<open>fcs = (fcs >> 1) ^ polynomial if fcs & 1 else fcs >> 1\<close>. The value
  starts below 256 and the polynomial has 16 bits, so \<open>fcs\<close> is a 16-bit word.
\<close>

definition valiter_step :: "16 word \<Rightarrow> 16 word" where
  "valiter_step fcs = (if fcs AND 1 \<noteq> 0 then drop_bit 1 fcs XOR HDLC_FCS_POLY else drop_bit 1 fcs)"

fun valiter_loop :: "nat \<Rightarrow> 16 word \<Rightarrow> 16 word" where
  "valiter_loop 0 fcs = fcs"
| "valiter_loop (Suc i) fcs = valiter_loop i (valiter_step fcs)"

definition mkfcstab :: "16 word list" where
  "mkfcstab = map (\<lambda>byte. valiter_loop 8 (of_nat byte) AND 0xFFFF) [0..<256]"

text \<open>\<open>fcs16(byte, fcs)\<close>; the index is masked to \<open>0..255\<close>, inside the table.\<close>

definition fcs16 :: "byte \<Rightarrow> 16 word \<Rightarrow> 16 word" where
  "fcs16 byte fcs = drop_bit 8 fcs XOR mkfcstab ! unat ((fcs XOR ucast byte) AND 0xFF)"

text \<open>
  The receive loop of \<open>getResponse\<close>. \<open>n\<close> is the number of times the test
  \<open>time.time() < timeout\<close> still succeeds. \<open>self.serial.read(1)\<close> on an exhausted
  line returns \<open>b''\<close> after the port's 3 second timeout, which \<open>int.from_bytes\<close> turns
  into 0: that 0 is handled like a received byte, and since the loop's deadline is 3
  seconds too, the loop ends after it. The result is the packet, the FCS and the bytes
  left on the line.
\<close>

fun getResponse_loop :: "nat \<Rightarrow> byte list \<Rightarrow> byte list \<Rightarrow> 16 word \<Rightarrow> byte list \<times> 16 word \<times> byte list" where
  "getResponse_loop 0 line packet fcs = (packet, fcs, line)"
| "getResponse_loop (Suc n) [] packet fcs = (packet @ [0], fcs16 0 fcs, [])"
| "getResponse_loop (Suc n) (byte # line) packet fcs =
     (if byte = HDLC_FLAG then
        (if length packet = 0 then getResponse_loop n line packet fcs
         else (packet, fcs, line))
      else if byte = HDLC_ESCAPE then
        (case line of
           [] \<Rightarrow> (packet @ [0 XOR 0x20], fcs16 (0 XOR 0x20) fcs, [])
         | byte # line \<Rightarrow>
             getResponse_loop n line (packet @ [byte XOR 0x20]) (fcs16 (byte XOR 0x20) fcs))
      else getResponse_loop n line (packet @ [byte]) (fcs16 byte fcs))"

text \<open>
  \<open>getResponse\<close>: status \<open>-1\<close> without a packet, or status 0 and the packet without
  its last two bytes (\<open>packet[:-2]\<close>).
\<close>

definition getResponse :: "nat \<Rightarrow> serial \<Rightarrow> (int \<times> byte list option) \<times> serial" where
  "getResponse n s =
     (let (packet, fcs, line) = getResponse_loop n (rx s) [] HDLC_FCS_INIT;
          s = s\<lparr>rx := line\<rparr>
      in if length packet = 0 then ((-1, None), s)
         else if fcs \<noteq> HDLC_FCS_GOOD then ((-1, None), s)
         else ((0, Some (take (length packet - 2) packet)), s))"

definition encode_byte :: "byte \<Rightarrow> byte list \<Rightarrow> byte list" where
  "encode_byte byte packet =
     (if byte = HDLC_ESCAPE \<or> byte = HDLC_FLAG
      then (packet @ [HDLC_ESCAPE]) @ [byte XOR 0x20]
      else packet @ [byte])"

fun encode_loop :: "byte list \<Rightarrow> 16 word \<Rightarrow> byte list \<Rightarrow> 16 word \<times> byte list" where
  "encode_loop [] fcs packet = (fcs, packet)"
| "encode_loop (byte # payload) fcs packet =
     encode_loop payload (fcs16 byte fcs) (encode_byte byte packet)"

definition encode :: "byte list \<Rightarrow> byte list" where
  "encode payload =
     (let (fcs, packet) = encode_loop payload HDLC_FCS_INIT [HDLC_FLAG];
          fcs = fcs XOR 0xFFFF;
          packet = encode_byte (ucast (fcs AND 0xFF)) packet;
          packet = encode_byte (ucast (drop_bit 8 fcs)) packet
      in packet @ [HDLC_FLAG])"

definition sendHdlcPacket :: "nat \<Rightarrow> serial \<Rightarrow> byte list \<Rightarrow> (int \<times> byte list option) \<times> serial" where
  "sendHdlcPacket n s data = getResponse n (serial_write s (encode data))"

section \<open>Spinel transport (class \<open>SpinelProtocolInterface\<close>)\<close>

definition CMD_PROP_VALUE_GET :: nat where
  "CMD_PROP_VALUE_GET = 2"

definition HEADER_ASYNC :: byte where
  "HEADER_ASYNC = 0x80"

definition HEADER_DEFAULT :: byte where
  "HEADER_DEFAULT = 0x81"

definition CMD_RESET :: nat where
  "CMD_RESET = 1"

definition CMD_MFG_LAUNCH_BOOTLOADER :: nat where
  "CMD_MFG_LAUNCH_BOOTLOADER = 15360"

text \<open>
  \<open>encode_i(data)\<close>: the \<open>while data\<close> loop, with \<open>result\<close> as accumulator. Command
  and property identifiers are non-negative, so \<open>data\<close> is a natural number (on a
  negative Python integer the loop would not end). \<open>value\<close> is at most \<open>0xFF\<close>, as
  \<open>pack("<B", value)\<close> needs.
\<close>

function encode_i_loop :: "nat \<Rightarrow> byte list \<Rightarrow> byte list" where
  "encode_i_loop data result =
     (if data \<noteq> 0
      then encode_i_loop (drop_bit 7 data)
             (result @ [of_nat (if drop_bit 7 data \<noteq> 0 then (data AND 0x7F) OR 0x80 else data AND 0x7F)])
      else result)"
  by pat_completeness auto
termination
  by (relation "measure (\<lambda>(data, result). data)") (auto simp: drop_bit_eq_div)

declare encode_i_loop.simps [simp del]

definition encode_i :: "nat \<Rightarrow> byte list" where
  "encode_i data = encode_i_loop data []"

definition encode_packet :: "nat \<Rightarrow> byte list \<Rightarrow> byte list" where
  "encode_packet command_id payload = ([HEADER_DEFAULT] @ encode_i command_id) @ payload"

text \<open>
  \<open>sendSpinelCommand\<close>: the packet goes out through HDLC-Lite; a non-zero status of
  the reply (it can only be \<open>-1\<close>) is raised as an exception.
\<close>

definition sendSpinelCommand :: "nat \<Rightarrow> serial \<Rightarrow> nat \<Rightarrow> byte list \<Rightarrow> (py_error + byte list) \<times> serial" where
  "sendSpinelCommand n s command_id payload =
     (let pkt = encode_packet command_id payload;
          ((status, response), s) = sendHdlcPacket n s pkt
      in if status \<noteq> 0 then (Inl (Exception ''sendHdlcPacket status error: -1''), s)
         else (Inr (case response of Some r \<Rightarrow> r | None \<Rightarrow> []), s))"

text \<open>\<open>propValueGet(prop_id)\<close>: the request is sent first, the identifier looked at after.\<close>

definition propValueGet :: "nat \<Rightarrow> serial \<Rightarrow> nat \<Rightarrow> (py_error + byte list) \<times> serial" where
  "propValueGet n s prop_id =
     (case sendSpinelCommand n s CMD_PROP_VALUE_GET (encode_i prop_id) of
        (Inl e, s) \<Rightarrow> (Inl e, s)
      | (Inr resp, s) \<Rightarrow>
          if prop_id > 0xFFFF
          then (Inl (Exception ''prop_id is more than 0xFFFF. Not sure what to do''), s)
          else if prop_id > 0xFF then (Inr (drop 4 resp), s)
          else (Inr (drop 3 resp), s))"

text \<open>
  Modelled from the spec: the source has no decoder for the variable-length integers
  (the replies are cut at fixed offsets). The spec's \<open>decode_varint\<close> is the decoder of
  unsigned LEB128, 7 bits per byte, least significant group first, continuation bit
  \<open>0x80\<close>: it reads up to the first byte without the continuation bit, and there is no
  value when the bytes end before such a byte.
\<close>

fun decode_varint :: "byte list \<Rightarrow> nat option" where
  "decode_varint [] = None"
| "decode_varint (b # bs) =
     (if b AND 0x80 = 0 then Some (unat b)
      else (case decode_varint bs of
              None \<Rightarrow> None
            | Some v \<Rightarrow> Some (unat (b AND 0x7F) + 128 * v)))"

section \<open>Mode controller (class \<open>ElelabsUtilities\<close>)\<close>

datatype AdapterModeProbeStatus = ZIGBEE | THREAD | BOOTLOADER | ERROR

text \<open>
  \<open>config.baudrate\<close> is the integer 115200 by default and a string when given on the
  command line (\<open>type=str\<close>), so it is a Python value of either type; \<open>!=\<close> compares
  such values and a string never equals an integer.
\<close>

datatype pyval = PyInt int | PyStr string

record config =
  port :: string
  baudrate :: pyval

text \<open>
  What the controller does to the outside, in order: a serial session opened at a baud
  rate (\<open>SerialInterface.open\<close>, taken to succeed) or closed, the bytes it writes
  itself, the XMODEM transfer of a file, and the message logged on an exit path (its
  first line).
\<close>

datatype event =
    Open pyval
  | Close
  | Write "byte list"
  | Xmodem string
  | Critical string
  | Info string

text \<open>
  The device decides which branch each conversation takes. One probe ends in one of
  five ways: \<open>initEzspProtocol\<close> returns 0 (with the board name if the vendor string is
  \<open>Elelabs\<close>), or it fails and \<open>initSpinelProtocol\<close> returns 0 (likewise), or both fail
  and the bootloader menu answers the carriage return, or nothing answers, or one of
  the calls raises inside the open session.
\<close>

datatype probe_reply =
    EzspReply "string option"
  | SpinelReply "string option"
  | MenuReply
  | NoReply
  | ProbeRaises py_error

text \<open>
  The state of the outside: the events so far, the device's answers to the probes
  still to come, its answer to the launch conversation of \<open>restart\<close> (an exception, or
  the status of \<open>launchStandaloneBootloader\<close> on Zigbee and of \<open>initSpinelProtocol\<close>
  on Thread), whether a \<open>C\<close> arrives within the 10 seconds of the ready wait, whether
  the image file can be opened, and the result of \<open>modem.send\<close>.
\<close>

record world =
  events :: "event list"
  probe_replies :: "probe_reply list"
  launch_reply :: "py_error + int"
  xmodem_ready :: bool
  image_readable :: bool
  xmodem_sent :: bool

definition emit :: "event \<Rightarrow> world \<Rightarrow> world" where
  "emit ev w = w\<lparr>events := events w @ [ev]\<rparr>"

definition next_probe_reply :: "world \<Rightarrow> probe_reply \<times> world" where
  "next_probe_reply w =
     (case probe_replies w of
        [] \<Rightarrow> (NoReply, w)
      | r # rs \<Rightarrow> (r, w\<lparr>probe_replies := rs\<rparr>))"

text \<open>\<open>sub in s\<close> on Python strings: \<open>sub\<close> occurs in \<open>s\<close> as a contiguous piece.\<close>

fun str_in :: "string \<Rightarrow> string \<Rightarrow> bool" where
  "str_in sub [] = (sub = [])"
| "str_in sub (c # cs) = (take (length sub) (c # cs) = sub \<or> str_in sub cs)"

text \<open>\<open>s.endswith(suf)\<close>, the test that the spec words as "ends in".\<close>

definition endswith :: "string \<Rightarrow> string \<Rightarrow> bool" where
  "endswith s suf = (length suf \<le> length s \<and> drop (length s - length suf) s = suf)"

text \<open>
  \<open>probe\<close>: the session is opened at the configured rate; the Zigbee and Thread
  branches close it and return; the last branch reopens at 115200 if the configured
  rate is another value, writes a carriage return, and closes on both of its returns.
\<close>

definition probe :: "config \<Rightarrow> world \<Rightarrow> (py_error + AdapterModeProbeStatus \<times> string option) \<times> world" where
  "probe cfg w =
     (let w = emit (Open (baudrate cfg)) w;
          (reply, w) = next_probe_reply w
      in case reply of
           ProbeRaises e \<Rightarrow> (Inl e, w)
         | EzspReply adapter_name \<Rightarrow> (Inr (ZIGBEE, adapter_name), emit Close w)
         | SpinelReply adapter_name \<Rightarrow> (Inr (THREAD, adapter_name), emit Close w)
         | _ \<Rightarrow>
             let w = (if baudrate cfg \<noteq> PyInt 115200
                      then emit (Open (PyInt 115200)) (emit Close w) else w);
                 w = emit (Write [0x0D]) w
             in if reply = NoReply
                then (Inr (ERROR, None),
                      emit (Info ''Couldn't communicate with the adapter in Zigbee (EZSP) mode, Thread (Spinel) mode or bootloader mode'')
                        (emit Close w))
                else (Inr (BOOTLOADER, None), emit Close w))"

text \<open>
  The end of both restart branches: the second probe decides the returned value.
\<close>

definition probe_expect :: "config \<Rightarrow> (AdapterModeProbeStatus \<Rightarrow> bool) \<Rightarrow> world \<Rightarrow> (py_error + int option) \<times> world" where
  "probe_expect cfg wanted w =
     (case probe cfg w of
        (Inl e, w) \<Rightarrow> (Inl e, w)
      | (Inr (adapter_status, adapter_name), w) \<Rightarrow>
          if wanted adapter_status then (Inr (Some 0), w) else (Inr (Some (-1)), w))"

text \<open>
  \<open>restart(mode)\<close> returns 0, \<open>-1\<close>, or nothing (\<open>None\<close>) when the first probe gave
  \<open>ERROR\<close>, where no branch of the source applies.
\<close>

definition restart :: "config \<Rightarrow> string \<Rightarrow> world \<Rightarrow> (py_error + int option) \<times> world" where
  "restart cfg mode w =
     (case probe cfg w of
        (Inl e, w) \<Rightarrow> (Inl e, w)
      | (Inr (adapter_status, adapter_name), w) \<Rightarrow>
          if adapter_status = ZIGBEE \<or> adapter_status = THREAD then
            if mode = ''btl'' then
              let w = emit (Open (baudrate cfg)) w in
              if adapter_status = ZIGBEE then
                (case launch_reply w of
                   Inl e \<Rightarrow> (Inl e, w)
                 | Inr status \<Rightarrow>
                     if status \<noteq> 0
                     then (Inr (Some (-1)),
                           emit (Critical ''Error launching the adapter in bootloader mode'') (emit Close w))
                     else probe_expect cfg (\<lambda>st. st = BOOTLOADER) (emit Close w))
              else if adapter_name = None
              then (Inr (Some (-1)),
                    emit (Critical ''No Elelabs Thread product detected.'') w)
              else
                (case launch_reply w of
                   Inl e \<Rightarrow> (Inl e, w)
                 | Inr spinel_status \<Rightarrow>
                     if spinel_status \<noteq> 0
                     then (Inr (Some (-1)),
                           emit (Critical ''Error launching the adapter in bootloader mode'') (emit Close w))
                     else probe_expect cfg (\<lambda>st. st = BOOTLOADER) (emit Close w))
            else (Inr (Some 0), w)
          else if adapter_status = BOOTLOADER then
            if mode = ''btl'' then (Inr (Some 0), w)
            else
              let w = emit (Open (PyInt 115200)) w;
                  w = emit (Write [0x32]) w;
                  w = emit Close w
              in probe_expect cfg (\<lambda>st. st = ZIGBEE \<or> st = THREAD) w
          else (Inr None, w))"

text \<open>The truth value of what \<open>restart\<close> returned: \<open>None\<close> and 0 are false.\<close>

definition truthy :: "int option \<Rightarrow> bool" where
  "truthy r = (case r of None \<Rightarrow> False | Some v \<Rightarrow> v \<noteq> 0)"

text \<open>
  \<open>flash(filename)\<close>: the name test, the restart into the bootloader, the session at
  115200 with the menu choice \<open>1\<close>, the ready wait, the transfer, the reboot byte
  \<open>2\<close>, the close and the last probe. It returns \<open>None\<close> on every path.
\<close>

definition flash :: "config \<Rightarrow> string \<Rightarrow> world \<Rightarrow> (py_error + unit) \<times> world" where
  "flash cfg filename w =
     (if \<not> str_in ''.gbl'' filename \<and> \<not> str_in ''.ebl'' filename
      then (Inr (), emit (Critical ''Aborted! Gecko bootloader accepts .gbl or .ebl images only.'') w)
      else
        case restart cfg ''btl'' w of
          (Inl e, w) \<Rightarrow> (Inl e, w)
        | (Inr r, w) \<Rightarrow>
            if truthy r
            then (Inr (), emit (Critical ''EZSP adapter not in the bootloader mode. Can't perform update procedure'') w)
            else
              let w = emit (Open (PyInt 115200)) w;
                  w = emit (Write [0x0A]) w;
                  w = emit (Write [0x31]) w
              in if \<not> xmodem_ready w
                 then (Inr (), emit (Info ''Failed to restart into bootloader mode. Please see users guide.'') w)
                 else if \<not> image_readable w then (Inl OSError, w)
                 else
                   let w = emit (Xmodem filename) w in
                   if \<not> xmodem_sent w
                   then (Inr (), emit (Critical ''Firmware upload failed. Please try a correct firmware image or restart in normal mode.'') w)
                   else
                     let w = emit (Write [0x32]) w;
                         w = emit Close w
                     in (case probe cfg w of
                           (Inl e, w) \<Rightarrow> (Inl e, w)
                         | (Inr _, w) \<Rightarrow> (Inr (), w)))"

text \<open>Sessions opened and not yet closed in a sequence of events.\<close>

fun open_sessions :: "event list \<Rightarrow> int" where
  "open_sessions [] = 0"
| "open_sessions (Open b # es) = open_sessions es + 1"
| "open_sessions (Close # es) = open_sessions es - 1"
| "open_sessions (e # es) = open_sessions es"

section \<open>Sequences of calls and the words of the specification\<close>

text \<open>
  The whitening as the specification words it: an 8-bit register; each byte is XORed
  with the register, which then becomes \<open>(state >> 1) XOR 0xB8\<close> if its lowest bit
  is 1 and \<open>state >> 1\<close> otherwise.
\<close>

definition lfsr_next :: "byte \<Rightarrow> byte" where
  "lfsr_next state = (if bit state 0 then drop_bit 1 state XOR 0xB8 else drop_bit 1 state)"

fun whiten :: "byte \<Rightarrow> byte list \<Rightarrow> byte list" where
  "whiten state [] = []"
| "whiten state (x # xs) = (x XOR state) # whiten (lfsr_next state) xs"

text \<open>
  A run of received bytes that holds a whole number of HDLC-Lite items: no flag
  outside an escape, no escape as its last byte; and the bytes such a run stands for.
\<close>

fun plain_run :: "byte list \<Rightarrow> bool" where
  "plain_run [] = True"
| "plain_run (b # bs) =
     (if b = HDLC_FLAG then False
      else if b = HDLC_ESCAPE then (case bs of [] \<Rightarrow> False | c # cs \<Rightarrow> plain_run cs)
      else plain_run bs)"

fun unescaped :: "byte list \<Rightarrow> byte list" where
  "unescaped [] = []"
| "unescaped (b # bs) =
     (if b = HDLC_ESCAPE then (case bs of [] \<Rightarrow> [] | c # cs \<Rightarrow> (c XOR 0x20) # unescaped cs)
      else b # unescaped bs)"

text \<open>
  The calls made on an ASH session in the course of a conversation: a DATA frame built
  by \<open>ashFrameBuilder\<close> or an acknowledgement sent by \<open>sendAck\<close>.
\<close>

datatype ash_call = DataFrame "byte list" | AckFrame byte

fun ash_calls :: "ash \<Rightarrow> ash_call list \<Rightarrow> ash" where
  "ash_calls a [] = a"
| "ash_calls a (DataFrame f # cs) = ash_calls (snd (ashFrameBuilder a f)) cs"
| "ash_calls a (AckFrame n # cs) = ash_calls (sendAck a n) cs"

fun data_frames :: "ash_call list \<Rightarrow> nat" where
  "data_frames [] = 0"
| "data_frames (DataFrame f # cs) = Suc (data_frames cs)"
| "data_frames (AckFrame n # cs) = data_frames cs"

text \<open>
  The steps of an EZSP session that touch its state: a command, whose frame
  \<open>ezspFrameBuilder\<close> builds, or the assignment of the negotiated version to
  \<open>ezspVersion\<close> in \<open>initEzspProtocol\<close>. An exception ends the session.
\<close>

datatype ezsp_call = Command "byte list" | Negotiated nat

fun ezsp_calls :: "ezsp \<Rightarrow> ezsp_call list \<Rightarrow> py_error + ezsp" where
  "ezsp_calls e [] = Inr e"
| "ezsp_calls e (Command c # cs) =
     (case ezspFrameBuilder e c of
        Inl err \<Rightarrow> Inl err
      | Inr (frame, e') \<Rightarrow> ezsp_calls e' cs)"
| "ezsp_calls e (Negotiated v # cs) = ezsp_calls (e\<lparr>ezspVersion := v\<rparr>) cs"

fun commands_sent :: "ezsp_call list \<Rightarrow> nat" where
  "commands_sent [] = 0"
| "commands_sent (Command c # cs) = Suc (commands_sent cs)"
| "commands_sent (Negotiated v # cs) = commands_sent cs"

fun nonempty_commands :: "ezsp_call list \<Rightarrow> bool" where
  "nonempty_commands [] = True"
| "nonempty_commands (Command c # cs) = (c \<noteq> [] \<and> nonempty_commands cs)"
| "nonempty_commands (Negotiated v # cs) = nonempty_commands cs"

section \<open>ASH byte stuffing\<close>

lemma bytes_replace_single:
  "bytes_replace [a] new xs = concat (map (\<lambda>x. if x = a then new else [x]) xs)"
  by (induction xs) simp_all

lemma set_bytes_replace_single:
  "set (bytes_replace [a] new xs) \<subseteq> (set xs - {a}) \<union> set new"
  by (auto simp: bytes_replace_single split: if_splits)

text \<open>
  The second half of the stuffing law holds: a stuffed frame holds no flag byte at
  all, whatever the input.
\<close>

lemma replaceReservedBytes_no_flag: "0x7E \<notin> set (replaceReservedBytes x)"
proof -
  define m1 where "m1 = bytes_replace [0x7D] [0x7D, 0x5D] x"
  define m2 where "m2 = bytes_replace [0x7E] [0x7D, 0x5E] m1"
  define m3 where "m3 = bytes_replace [0x11] [0x7D, 0x31] m2"
  define m4 where "m4 = bytes_replace [0x13] [0x7D, 0x33] m3"
  define m5 where "m5 = bytes_replace [0x18] [0x7D, 0x38] m4"
  define m6 where "m6 = bytes_replace [0x1A] [0x7D, 0x3A] m5"
  have "0x7E \<notin> set m2"
    using set_bytes_replace_single [of "0x7E" "[0x7D, 0x5E]" m1] by (auto simp: m2_def)
  then have "0x7E \<notin> set m3"
    using set_bytes_replace_single [of "0x11" "[0x7D, 0x31]" m2] by (auto simp: m3_def)
  then have "0x7E \<notin> set m4"
    using set_bytes_replace_single [of "0x13" "[0x7D, 0x33]" m3] by (auto simp: m4_def)
  then have "0x7E \<notin> set m5"
    using set_bytes_replace_single [of "0x18" "[0x7D, 0x38]" m4] by (auto simp: m5_def)
  then have "0x7E \<notin> set m6"
    using set_bytes_replace_single [of "0x1A" "[0x7D, 0x3A]" m5] by (auto simp: m6_def)
  then show ?thesis
    by (simp add: replaceReservedBytes_def m1_def m2_def m3_def m4_def m5_def m6_def)
qed

text \<open>
  C1. The stuffing round trip \<open>revertEscapedBytes (replaceReservedBytes x) = x\<close> does
  not hold for every byte string. The two bytes \<open>7D 5E\<close> are stuffed to \<open>7D 5D 5E\<close>;
  \<open>revertEscapedBytes\<close> first turns \<open>7D 5D\<close> back into \<open>7D\<close>, and its second
  \<open>replace\<close> then reads the restored \<open>7D\<close> with the following \<open>5E\<close> as an escaped
  flag: the result is the single byte \<open>7E\<close>.
\<close>

theorem stuffing_round_trip_fails_7D_5E:
  "replaceReservedBytes [0x7D, 0x5E] = [0x7D, 0x5D, 0x5E] \<and>
   revertEscapedBytes (replaceReservedBytes [0x7D, 0x5E]) = [0x7E] \<and>
   revertEscapedBytes (replaceReservedBytes [0x7D, 0x5E]) \<noteq> [0x7D, 0x5E]"
  by (simp add: revertEscapedBytes_def replaceReservedBytes_def)

section \<open>ASH whitening\<close>

lemma dataRandomize_loop_whiten: "dataRandomize_loop rand frame = whiten rand frame"
proof (induction frame arbitrary: rand)
  case Nil
  show ?case by simp
next
  case (Cons x frame)
  have "(unat rand mod 2 \<noteq> 0) = bit rand 0"
    by (simp add: bit_0 even_iff_mod_2_eq_zero unat_mod_distrib word_unat_eq_iff)
  then show ?case
    by (simp add: Cons.IH lfsr_next_def RANDOMIZE_SEQ_def)
qed

lemma whiten_twice: "whiten state (whiten state xs) = xs"
  by (induction xs arbitrary: state) (simp_all add: xor.assoc)

text \<open>
  C2. \<open>dataRandomize\<close> is the XOR with the register sequence that starts at \<open>0x42\<close>
  and follows the stated update rule, and applying it twice gives the input back, for
  every byte string.
\<close>

theorem dataRandomize_involution:
  "dataRandomize x = whiten 0x42 x \<and> dataRandomize (dataRandomize x) = x"
  by (simp add: dataRandomize_def RANDOMIZE_START_def dataRandomize_loop_whiten whiten_twice)

section \<open>ASH acknowledgement frame\<close>

text \<open>
  C3, as the claim states it: the CRC of the single byte \<open>0x80\<close> from \<open>0xFFFF\<close> is
  not \<open>0x2672\<close>.
\<close>

theorem crc_of_ack0_is_not_2672: "crc_hqx [0x80] 0xFFFF \<noteq> 0x2672"
  by (simp add: crc_hqx_def crc_hqx_byte_def crc_hqx_shift_def)

text \<open>
  C3, amended: the CRC of the single byte \<open>0x80\<close> from \<open>0xFFFF\<close> is \<open>0x7078\<close>, and
  \<open>sendAck\<close> with \<open>ack_num = 0\<close> writes the frame \<open>80 70 78 7E\<close>.
\<close>

theorem crc_of_ack0:
  "crc_hqx [0x80] 0xFFFF = 0x7078 \<and>
   tx (ash_serial (sendAck a 0)) = tx (ash_serial a) @ [0x80, 0x70, 0x78, 0x7E]"
  by (simp add: sendAck_def crc_hqx_def crc_hqx_byte_def crc_hqx_shift_def
      replaceReservedBytes_def FLAG_BYTE_def serial_write_def)

section \<open>HDLC-Lite receive\<close>

lemma valiter_loop_8:
  "valiter_loop 8 x =
     valiter_step (valiter_step (valiter_step (valiter_step
       (valiter_step (valiter_step (valiter_step (valiter_step x)))))))"
  by (simp add: eval_nat_numeral)

lemma fcs16_eq:
  "fcs16 byte fcs = drop_bit 8 fcs XOR (valiter_loop 8 ((fcs XOR ucast byte) AND 0xFF) AND 0xFFFF)"
proof -
  have "unat ((fcs XOR ucast byte) AND 0xFF) \<le> unat (0xFF :: 16 word)"
    by (rule word_and_le1 [THEN word_le_nat_alt [THEN iffD1]])
  then have "unat ((fcs XOR ucast byte) AND 0xFF) < 256"
    by simp
  then show ?thesis
    by (simp add: fcs16_def mkfcstab_def)
qed

lemmas fcs16_eval = fcs16_eq valiter_loop_8 valiter_step_def HDLC_FCS_POLY_def

text \<open>Two frames with a good FCS: the payloads \<open>81 06\<close> and \<open>81 02\<close>.\<close>

lemma fcs_81_06: "fcs16 0xFF (fcs16 0x65 (fcs16 0x06 (fcs16 0x81 0xFFFF))) = 0xF0B8"
  by (simp add: fcs16_eval)

lemma fcs_81_02: "fcs16 0xB9 (fcs16 0x41 (fcs16 0x02 (fcs16 0x81 0xFFFF))) = 0xF0B8"
  by (simp add: fcs16_eval)

lemma fcs_81_06_02: 
  "fcs16 0x61 (fcs16 0x4B (fcs16 0x54 (fcs16 0x4F (fcs16 0x02 (fcs16 0x06 (fcs16 0x81 0xFFFF)))))) = 0xF0B8"
  by (simp add: fcs16_eval)

text \<open>Flags read while the packet is empty are skipped, one loop round each.\<close>

lemma getResponse_loop_flags:
  "getResponse_loop (k + n) (replicate k HDLC_FLAG @ line) [] fcs = getResponse_loop n line [] fcs"
  by (induction k) simp_all

lemma unescaped_nonempty: "plain_run r \<Longrightarrow> r \<noteq> [] \<Longrightarrow> unescaped r \<noteq> []"
  by (cases r) (auto split: list.splits if_splits)

text \<open>
  A run of bytes in front of a flag is taken into the packet, un-escaped, and the flag
  ends the packet, provided the packet is not empty then and the deadline allows one
  round per packet byte and one for the flag.
\<close>

lemma getResponse_loop_run:
  "plain_run r \<Longrightarrow> length (unescaped r) < n \<Longrightarrow> packet \<noteq> [] \<or> r \<noteq> [] \<Longrightarrow>
   getResponse_loop n (r @ HDLC_FLAG # rest) packet fcs =
     (packet @ unescaped r, fold fcs16 (unescaped r) fcs, rest)"
proof (induction r arbitrary: n packet fcs rule: plain_run.induct)
  case 1
  then obtain m where "n = Suc m" by (cases n) auto
  with 1 show ?case by simp
next
  case (2 b bs)
  from 2(3) have nf: "b \<noteq> HDLC_FLAG" by (simp split: if_splits)
  show ?case
  proof (cases "b = HDLC_ESCAPE")
    case True
    with 2(3) nf obtain c cs where bs: "bs = c # cs" and pr: "plain_run cs"
      by (auto split: list.splits)
    from 2(4) True bs obtain m where n: "n = Suc m" and m: "length (unescaped cs) < m"
      by (cases n) auto
    have "getResponse_loop m (cs @ HDLC_FLAG # rest) (packet @ [c XOR 0x20]) (fcs16 (c XOR 0x20) fcs)
        = ((packet @ [c XOR 0x20]) @ unescaped cs, fold fcs16 (unescaped cs) (fcs16 (c XOR 0x20) fcs), rest)"
      using "2.IH"(1) [OF nf True bs pr m] by simp
    with True nf bs n show ?thesis by simp
  next
    case False
    with 2(3) nf have pr: "plain_run bs" by simp
    from 2(4) False obtain m where n: "n = Suc m" and m: "length (unescaped bs) < m"
      by (cases n) auto
    have "getResponse_loop m (bs @ HDLC_FLAG # rest) (packet @ [b]) (fcs16 b fcs)
        = ((packet @ [b]) @ unescaped bs, fold fcs16 (unescaped bs) (fcs16 b fcs), rest)"
      using "2.IH"(2) [OF nf False pr m] by simp
    with False nf n show ?thesis by simp
  qed
qed

text \<open>
  What the receive loop does: only flags read while the packet is empty are skipped;
  the first non-empty run of bytes that a flag ends, whether or not a flag precedes
  it, is un-escaped and taken as the packet, and the bytes after the ending flag stay
  on the line.
\<close>

lemma getResponse_run:
  assumes "plain_run r" and "r \<noteq> []" and "k + length (unescaped r) < n"
  shows "getResponse n \<lparr>rx = replicate k HDLC_FLAG @ r @ HDLC_FLAG # rest, tx = t\<rparr> =
     ((if fold fcs16 (unescaped r) HDLC_FCS_INIT = HDLC_FCS_GOOD
       then (0, Some (take (length (unescaped r) - 2) (unescaped r))) else (-1, None)),
      \<lparr>rx = rest, tx = t\<rparr>)"
proof -
  define m where "m = n - k"
  from assms(3) have n: "n = k + m" and m: "length (unescaped r) < m"
    by (simp_all add: m_def)
  have "getResponse_loop n (replicate k HDLC_FLAG @ r @ HDLC_FLAG # rest) [] HDLC_FCS_INIT
      = (unescaped r, fold fcs16 (unescaped r) HDLC_FCS_INIT, rest)"
    using getResponse_loop_run [OF assms(1) m, of "[]" rest HDLC_FCS_INIT] assms(2)
    by (simp add: n getResponse_loop_flags)
  then show ?thesis
    using unescaped_nonempty [OF assms(1,2)] by (simp add: getResponse_def)
qed

lemmas hdlc_consts = HDLC_FLAG_def HDLC_ESCAPE_def HDLC_FCS_INIT_def HDLC_FCS_GOOD_def

lemma fcs_00: "fcs16 0x00 0xFFFF = 0x0F87"
  by (simp add: fcs16_eval)

text \<open>
  C4. \<open>getResponse\<close> does not discard the bytes in front of the first flag. On the
  line \<open>81 06 65 FF 7E 81 02 41 B9 7E\<close> four bytes precede the first flag and a
  whole frame with the payload \<open>81 02\<close> follows it; \<open>getResponse\<close> returns \<open>81 06\<close>,
  made of the four leading bytes, where the frame between the first flag and the next
  (the second line, which starts at that flag) gives \<open>81 02\<close>. A single stray byte
  \<open>00\<close> in front of that frame is taken as a packet of its own, which the first flag
  ends: the status is \<open>-1\<close> and the good frame stays unread on the line.
\<close>

theorem getResponse_keeps_leading_bytes:
  "fst (getResponse 20 \<lparr>rx = [0x81, 0x06, 0x65, 0xFF, 0x7E, 0x81, 0x02, 0x41, 0xB9, 0x7E], tx = []\<rparr>)
     = (0, Some [0x81, 0x06]) \<and>
   fst (getResponse 20 \<lparr>rx = [0x7E, 0x81, 0x02, 0x41, 0xB9, 0x7E], tx = []\<rparr>)
     = (0, Some [0x81, 0x02]) \<and>
   getResponse 20 \<lparr>rx = [0x00, 0x7E, 0x81, 0x02, 0x41, 0xB9, 0x7E], tx = []\<rparr>
     = ((-1, None), \<lparr>rx = [0x81, 0x02, 0x41, 0xB9, 0x7E], tx = []\<rparr>)"
  using getResponse_run [of "[0x81, 0x06, 0x65, 0xFF]" 0 20 "[0x81, 0x02, 0x41, 0xB9, 0x7E]" "[]"]
    getResponse_run [of "[0x81, 0x02, 0x41, 0xB9]" 1 20 "[]" "[]"]
    getResponse_run [of "[0x00]" 0 20 "[0x81, 0x02, 0x41, 0xB9, 0x7E]" "[]"]
  by (simp add: hdlc_consts fcs_81_06 fcs_81_02 fcs_00)

section \<open>Spinel variable-length integers\<close>

lemma and_7F_mod: "(n::nat) AND 0x7F = n mod 128"
proof -
  have "n AND mask 7 = n mod 2 ^ 7"
    by (simp add: take_bit_eq_mod flip: take_bit_eq_mask)
  then show ?thesis by (simp add: mask_eq_exp_minus_1)
qed

lemma low7_or_80_and_80: "(((w :: byte) AND 0x7F) OR 0x80) AND 0x80 \<noteq> 0"
proof -
  have "((w AND 0x7F) OR 0x80) AND 0x80 = 0x80"
    by (simp add: bit_eq_iff bit_simps)
  then show ?thesis by simp
qed

lemma low7_or_80_and_7F: "(((w :: byte) AND 0x7F) OR 0x80) AND 0x7F = w AND 0x7F"
proof -
  have "(0x80 :: byte) AND 0x7F = 0" by simp
  then show ?thesis
    by (simp add: word_ao_dist word_bw_assocs)
qed

lemma low7_and_80: "((w :: byte) AND 0x7F) AND 0x80 = 0"
  by (simp add: word_bw_assocs)

lemma unat_low7: "unat ((of_nat n :: byte) AND 0x7F) = n mod 128"
proof -
  have "(of_nat n :: byte) AND 0x7F = of_nat (n AND 0x7F)"
    by (simp add: of_nat_and_eq)
  then show ?thesis
    by (simp add: unat_of_nat and_7F_mod)
qed

text \<open>The accumulator of the loop only collects the bytes.\<close>

lemma encode_i_loop_acc: "encode_i_loop data result = result @ encode_i_loop data []"
proof (induction data arbitrary: result rule: less_induct)
  case (less data)
  show ?case
  proof (cases "data = 0")
    case True
    then show ?thesis by (simp add: encode_i_loop.simps)
  next
    case False
    define b :: byte where
      "b = of_nat (if drop_bit 7 data \<noteq> 0 then (data AND 0x7F) OR 0x80 else data AND 0x7F)"
    have lt: "drop_bit 7 data < data"
      using False by (simp add: drop_bit_eq_div)
    have "encode_i_loop data result = encode_i_loop (drop_bit 7 data) (result @ [b])"
      using False by (subst encode_i_loop.simps) (simp add: b_def)
    then have l: "encode_i_loop data result = (result @ [b]) @ encode_i_loop (drop_bit 7 data) []"
      using less.IH [OF lt, of "result @ [b]"] by simp
    have "encode_i_loop data [] = encode_i_loop (drop_bit 7 data) [b]"
      using False by (subst encode_i_loop.simps) (simp add: b_def)
    then have r: "encode_i_loop data [] = [b] @ encode_i_loop (drop_bit 7 data) []"
      using less.IH [OF lt, of "[b]"] by simp
    from l r show ?thesis by simp
  qed
qed

lemma encode_i_0: "encode_i 0 = []"
  by (simp add: encode_i_def encode_i_loop.simps)

lemma encode_i_step:
  "0 < n \<Longrightarrow> encode_i n =
     (if n div 128 \<noteq> 0 then ((of_nat n AND 0x7F) OR 0x80) else of_nat n AND 0x7F) # encode_i (n div 128)"
  unfolding encode_i_def
  by (subst encode_i_loop.simps, subst encode_i_loop_acc)
     (simp add: drop_bit_eq_div of_nat_or_eq of_nat_and_eq)

text \<open>
  The round trip holds for every positive integer, of any size, and 15360 is encoded
  as the claim says.
\<close>

lemma varint_round_trip_positive: "0 < n \<Longrightarrow> decode_varint (encode_i n) = Some n"
proof (induction n rule: less_induct)
  case (less n)
  show ?case
  proof (cases "n div 128 = 0")
    case True
    then have "n < 128" by (simp add: div_eq_0_iff)
    with less.prems True show ?thesis
      by (simp add: encode_i_step low7_and_80 unat_low7)
  next
    case False
    then have pos: "0 < n div 128" by simp
    have lt: "n div 128 < n" using less.prems by simp
    have "decode_varint (encode_i (n div 128)) = Some (n div 128)"
      by (rule less.IH [OF lt pos])
    with less.prems False show ?thesis
      by (simp add: encode_i_step low7_or_80_and_80 low7_or_80_and_7F unat_low7)
  qed
qed

lemma encode_i_15360: "encode_i 15360 = [0x80, 0x78]"
  by (simp add: encode_i_step encode_i_0)

text \<open>
  C5. The round trip fails at \<open>n = 0\<close>: the loop \<open>while data\<close> is not entered, so
  \<open>encode_i 0\<close> is the empty byte string, which holds no integer; the unsigned LEB128
  encoding of 0 is the single byte \<open>00\<close>. A packet built for the identifier 0 is the
  header alone, followed by the payload.
\<close>

theorem encode_i_zero_is_empty:
  "encode_i 0 = [] \<and> decode_varint (encode_i 0) = None \<and>
   decode_varint (encode_i 0) \<noteq> Some 0 \<and>
   encode_packet 0 payload = HEADER_DEFAULT # payload"
  by (simp add: encode_i_0 encode_packet_def)

section \<open>EZSP frame header\<close>

lemma byte_and_FF: "(c :: byte) AND 0xFF = c"
proof -
  have "(0xFF :: byte) = - 1" by simp
  then show ?thesis by (simp only: and.right_neutral word_and_max bit.conj_one_right)
qed

lemma byte_shift_8: "(of_nat (drop_bit 8 (unat (c :: byte))) :: byte) = 0"
proof -
  have "unat c < 256" using unsigned_less [of c, where ?'a = nat] by simp
  then show ?thesis by (simp add: drop_bit_eq_div)
qed

lemma ezspFrameBuilder_nonempty:
  assumes "sequenceNum e < 256"
  shows "ezspFrameBuilder e (cmd_id # args) =
     Inr ((if ezspVersion e \<le> 4 then [of_nat (sequenceNum e), 0x00, cmd_id] @ args
           else if ezspVersion e \<le> 7 then [of_nat (sequenceNum e), 0x00, 0xFF, 0x00, cmd_id] @ args
           else [of_nat (sequenceNum e), 0x00, 0x01, cmd_id, 0x00] @ args),
          e\<lparr>sequenceNum := (sequenceNum e + 1) mod 255\<rparr>)"
  using assms by (auto simp: ezspFrameBuilder_def Let_def byte_and_FF byte_shift_8)

text \<open>
  C6. For a command body \<open>cmd_id # args\<close> and a sequence counter that fits a byte (it
  always does: it starts at 0 and is reduced modulo 255), \<open>ezspFrameBuilder\<close> returns
  \<open>[seq, 00, cmd_id, args]\<close> up to version 4, \<open>[seq, 00, FF, 00, cmd_id, args]\<close> for
  versions 5 to 7 and \<open>[seq, 00, 01, cmd_id, 00, args]\<close> from version 8 on: the
  command identifier, a one-byte number, in two bytes with the low byte first.
\<close>

theorem ezspFrameBuilder_layout:
  assumes "sequenceNum e < 256"
  shows "ezspFrameBuilder e (cmd_id # args) =
     Inr ((if ezspVersion e \<le> 4 then [of_nat (sequenceNum e), 0x00, cmd_id] @ args
           else if ezspVersion e \<le> 7 then [of_nat (sequenceNum e), 0x00, 0xFF, 0x00, cmd_id] @ args
           else [of_nat (sequenceNum e), 0x00, 0x01, cmd_id, 0x00] @ args),
          e\<lparr>sequenceNum := (sequenceNum e + 1) mod 255\<rparr>)"
  using assms by (rule ezspFrameBuilder_nonempty)

theorem ezspFrameBuilder_layout_witness:
  "sequenceNum \<lparr>ezspVersion = 8, sequenceNum = 3, ezsp_ash = ash_init \<lparr>rx = [], tx = []\<rparr>\<rparr> < 256 \<and>
   ezspFrameBuilder \<lparr>ezspVersion = 8, sequenceNum = 3, ezsp_ash = ash_init \<lparr>rx = [], tx = []\<rparr>\<rparr>
       [0xAA, 0x11] =
     Inr ([0x03, 0x00, 0x01, 0xAA, 0x00, 0x11],
          \<lparr>ezspVersion = 8, sequenceNum = 4, ezsp_ash = ash_init \<lparr>rx = [], tx = []\<rparr>\<rparr>)"
  using ezspFrameBuilder_layout
    [of "\<lparr>ezspVersion = 8, sequenceNum = 3, ezsp_ash = ash_init \<lparr>rx = [], tx = []\<rparr>\<rparr>" "0xAA" "[0x11]"]
  by simp

section \<open>Counters\<close>

lemma ashFrameBuilder_counters:
  "ackNum (snd (ashFrameBuilder a f)) = (ackNum a + 1) mod 8 \<and>
   frmNum (snd (ashFrameBuilder a f)) = (frmNum a + 1) mod 8"
  by (simp add: ashFrameBuilder_def Let_def)

lemma sendAck_counters: "ackNum (sendAck a n) = ackNum a \<and> frmNum (sendAck a n) = frmNum a"
  by (simp add: sendAck_def Let_def)

lemma ash_calls_counters:
  "ackNum a < 8 \<Longrightarrow> frmNum a < 8 \<Longrightarrow>
   ackNum (ash_calls a cs) = (ackNum a + data_frames cs) mod 8 \<and>
   frmNum (ash_calls a cs) = (frmNum a + data_frames cs) mod 8"
proof (induction a cs rule: ash_calls.induct)
  case (1 a)
  then show ?case by simp
next
  case (2 a f cs)
  have "ackNum (snd (ashFrameBuilder a f)) < 8" "frmNum (snd (ashFrameBuilder a f)) < 8"
    by (simp_all add: ashFrameBuilder_counters)
  from "2.IH" [OF this] show ?case
    by (simp add: ashFrameBuilder_counters mod_add_left_eq)
next
  case (3 a n cs)
  then show ?case by (simp add: sendAck_counters)
qed

lemma ezspFrameBuilder_sequenceNum:
  "ezspFrameBuilder e c = Inr (frame, e') \<Longrightarrow> sequenceNum e' = (sequenceNum e + 1) mod 255"
  by (auto simp: ezspFrameBuilder_def Let_def split: if_splits list.splits)

lemma ezsp_calls_sequenceNum:
  "sequenceNum e < 255 \<Longrightarrow> nonempty_commands cs \<Longrightarrow>
   \<exists>e'. ezsp_calls e cs = Inr e' \<and> sequenceNum e' = (sequenceNum e + commands_sent cs) mod 255"
proof (induction e cs rule: ezsp_calls.induct)
  case (1 e)
  then show ?case by simp
next
  case (2 e c cs)
  from "2.prems"(2) obtain cmd_id args where c: "c = cmd_id # args" and ne: "nonempty_commands cs"
    by (cases c) auto
  from "2.prems"(1) have lt: "sequenceNum e < 256" by simp
  obtain frame where fb: "ezspFrameBuilder e c = Inr (frame, e\<lparr>sequenceNum := (sequenceNum e + 1) mod 255\<rparr>)"
    using ezspFrameBuilder_nonempty [OF lt, of cmd_id args] c by simp
  have "sequenceNum (e\<lparr>sequenceNum := (sequenceNum e + 1) mod 255\<rparr>) < 255" by simp
  from "2.IH" [OF fb refl this ne] fb show ?case
    by (simp add: mod_add_left_eq)
next
  case (3 e v cs)
  then show ?case by simp
qed

lemma commands_sent_replicate: "commands_sent (replicate k (Command c)) = k"
  by (induction k) simp_all

lemma nonempty_commands_replicate: "c \<noteq> [] \<Longrightarrow> nonempty_commands (replicate k (Command c))"
  by (induction k) simp_all

text \<open>
  C7. Both ASH counters start at 0; \<open>ashFrameBuilder\<close> advances each by one modulo 8
  and \<open>sendAck\<close> changes neither, so after any sequence of calls on a fresh session
  both equal the number of DATA frames modulo 8, and after 8 DATA frames \<open>frmNum\<close> is 0
  again. The EZSP counter starts at 0 and every frame built advances it by one modulo
  255; a session of non-empty commands (with any changes of the negotiated version in
  between) raises nothing and leaves the counter at the number of commands modulo 255,
  which is 0 after 255 commands.
\<close>

theorem counters_advance_and_wrap:
  "ackNum (ash_init s) = 0 \<and> frmNum (ash_init s) = 0 \<and>
   ackNum (snd (ashFrameBuilder a f)) = (ackNum a + 1) mod 8 \<and>
   frmNum (snd (ashFrameBuilder a f)) = (frmNum a + 1) mod 8 \<and>
   ackNum (sendAck a n) = ackNum a \<and> frmNum (sendAck a n) = frmNum a \<and>
   ackNum (ash_calls (ash_init s) cs) = data_frames cs mod 8 \<and>
   frmNum (ash_calls (ash_init s) cs) = data_frames cs mod 8 \<and>
   (data_frames cs = 8 \<longrightarrow> frmNum (ash_calls (ash_init s) cs) = 0) \<and>
   sequenceNum (ezsp_init s) = 0 \<and>
   (ezspFrameBuilder e c = Inr (frame, e') \<longrightarrow> sequenceNum e' = (sequenceNum e + 1) mod 255) \<and>
   (nonempty_commands es \<longrightarrow>
      (\<exists>e'. ezsp_calls (ezsp_init s) es = Inr e' \<and> sequenceNum e' = commands_sent es mod 255)) \<and>
   (nonempty_commands es \<and> commands_sent es = 255 \<longrightarrow>
      (\<exists>e'. ezsp_calls (ezsp_init s) es = Inr e' \<and> sequenceNum e' = 0))"
proof -
  have ash: "ackNum (ash_calls (ash_init s) cs) = data_frames cs mod 8 \<and>
      frmNum (ash_calls (ash_init s) cs) = data_frames cs mod 8"
    using ash_calls_counters [of "ash_init s" cs] by (simp add: ash_init_def)
  have ezsp: "nonempty_commands es \<longrightarrow>
      (\<exists>e'. ezsp_calls (ezsp_init s) es = Inr e' \<and> sequenceNum e' = commands_sent es mod 255)"
    using ezsp_calls_sequenceNum [of "ezsp_init s" es] by (simp add: ezsp_init_def)
  have step: "ezspFrameBuilder e c = Inr (frame, e') \<longrightarrow> sequenceNum e' = (sequenceNum e + 1) mod 255"
    using ezspFrameBuilder_sequenceNum by blast
  have init: "ackNum (ash_init s) = 0 \<and> frmNum (ash_init s) = 0 \<and> sequenceNum (ezsp_init s) = 0"
    by (simp add: ash_init_def ezsp_init_def)
  have wrap8: "data_frames cs = 8 \<longrightarrow> frmNum (ash_calls (ash_init s) cs) = 0"
    using ash by simp
  have wrap255: "nonempty_commands es \<and> commands_sent es = 255 \<longrightarrow>
      (\<exists>e'. ezsp_calls (ezsp_init s) es = Inr e' \<and> sequenceNum e' = 0)"
    using ezsp by auto
  from init ash wrap8 step ezsp wrap255 ashFrameBuilder_counters [of a f] sendAck_counters [of a n]
  show ?thesis by blast
qed

theorem counters_advance_and_wrap_witness:
  "data_frames [DataFrame [0x00], AckFrame 0, DataFrame [0x01], DataFrame [], DataFrame [0x7E],
      AckFrame 1, DataFrame [0x02], DataFrame [0x03], DataFrame [0x04], DataFrame [0x05]] = 8 \<and>
   frmNum (ash_calls (ash_init \<lparr>rx = [], tx = []\<rparr>)
     [DataFrame [0x00], AckFrame 0, DataFrame [0x01], DataFrame [], DataFrame [0x7E],
      AckFrame 1, DataFrame [0x02], DataFrame [0x03], DataFrame [0x04], DataFrame [0x05]]) = 0 \<and>
   ezspFrameBuilder (ezsp_init \<lparr>rx = [], tx = []\<rparr>) [0x00, 0x04] =
     Inr ([0x00, 0x00, 0x00, 0x04], (ezsp_init \<lparr>rx = [], tx = []\<rparr>)\<lparr>sequenceNum := 1\<rparr>) \<and>
   sequenceNum ((ezsp_init \<lparr>rx = [], tx = []\<rparr>)\<lparr>sequenceNum := 1\<rparr>) =
     (sequenceNum (ezsp_init \<lparr>rx = [], tx = []\<rparr>) + 1) mod 255 \<and>
   nonempty_commands (Negotiated 8 # replicate 255 (Command [0x00, 0x04])) \<and>
   commands_sent (Negotiated 8 # replicate 255 (Command [0x00, 0x04])) = 255 \<and>
   (\<exists>e'. ezsp_calls (ezsp_init \<lparr>rx = [], tx = []\<rparr>)
            (Negotiated 8 # replicate 255 (Command [0x00, 0x04])) = Inr e' \<and> sequenceNum e' = 0)"
proof -
  let ?s = "\<lparr>rx = [], tx = []\<rparr> :: serial"
  let ?cs = "[DataFrame [0x00], AckFrame 0, DataFrame [0x01], DataFrame [], DataFrame [0x7E],
      AckFrame 1, DataFrame [0x02], DataFrame [0x03], DataFrame [0x04], DataFrame [0x05]]"
  let ?es = "Negotiated 8 # replicate 255 (Command [0x00, 0x04])"
  have fb: "ezspFrameBuilder (ezsp_init ?s) [0x00, 0x04] =
     Inr ([0x00, 0x00, 0x00, 0x04], (ezsp_init ?s)\<lparr>sequenceNum := 1\<rparr>)"
    by (simp add: ezspFrameBuilder_def ezsp_init_def INITIAL_EZSP_VERSION_def)
  have d: "data_frames ?cs = 8"
    by simp
  have "nonempty_commands (replicate 255 (Command [0x00, 0x04]))"
    by (rule nonempty_commands_replicate) simp
  then have ne: "nonempty_commands ?es"
    by (simp only: nonempty_commands.simps)
  have cnt: "commands_sent ?es = 255"
    by (simp only: commands_sent.simps commands_sent_replicate)
  from counters_advance_and_wrap
      [where s = ?s and cs = ?cs and es = ?es and e = "ezsp_init ?s" and c = "[0x00, 0x04]"
         and frame = "[0x00, 0x00, 0x00, 0x04]" and e' = "(ezsp_init ?s)\<lparr>sequenceNum := 1\<rparr>"]
    fb d ne cnt
  show ?thesis by blast
qed

section \<open>Spinel property values\<close>

lemma getResponse_tx: "tx (snd (getResponse n s)) = tx s"
  by (simp add: getResponse_def Let_def split: prod.splits)

lemma getResponse_status:
  "fst (getResponse n s) = (-1, None) \<or> (\<exists>resp. fst (getResponse n s) = (0, Some resp))"
  by (simp add: getResponse_def Let_def split: prod.splits)

lemma sendSpinelCommand_eq:
  "sendSpinelCommand n s command_id payload =
     (case fst (sendHdlcPacket n s (encode_packet command_id payload)) of
        (status, response) \<Rightarrow>
          if status \<noteq> 0 then Inl (Exception ''sendHdlcPacket status error: -1'')
          else Inr (case response of Some r \<Rightarrow> r | None \<Rightarrow> []),
      snd (sendHdlcPacket n s (encode_packet command_id payload)))"
  by (simp add: sendSpinelCommand_def Let_def split: prod.splits)

lemma propValueGet_tx:
  "tx (snd (propValueGet n s prop_id)) =
     tx s @ encode (encode_packet CMD_PROP_VALUE_GET (encode_i prop_id))"
  by (simp add: propValueGet_def sendSpinelCommand_eq sendHdlcPacket_def getResponse_tx serial_write_def
      split: prod.splits sum.splits)

lemma propValueGet_result:
  "fst (propValueGet n s prop_id) =
     (case fst (sendHdlcPacket n s (encode_packet CMD_PROP_VALUE_GET (encode_i prop_id))) of
        (status, response) \<Rightarrow>
          if status \<noteq> 0 then Inl (Exception ''sendHdlcPacket status error: -1'')
          else if prop_id > 0xFFFF
          then Inl (Exception ''prop_id is more than 0xFFFF. Not sure what to do'')
          else if prop_id > 0xFF then Inr (drop 4 (case response of Some r \<Rightarrow> r | None \<Rightarrow> []))
          else Inr (drop 3 (case response of Some r \<Rightarrow> r | None \<Rightarrow> [])))"
  by (simp add: propValueGet_def sendSpinelCommand_eq split: prod.splits sum.splits)

text \<open>
  C10. \<open>propValueGet\<close> always writes the encoded request to the line first. For a
  \<open>prop_id\<close> above \<open>0xFFFF\<close> it then raises: never a value. When the reply is a good
  frame \<open>resp\<close>, the exception is the one about \<open>prop_id\<close>, and otherwise the value
  is \<open>resp\<close> without its first 4 bytes for \<open>0xFF < prop_id \<le> 0xFFFF\<close> and without
  its first 3 bytes for \<open>prop_id \<le> 0xFF\<close>; a returned value is always one of these
  two.
\<close>

theorem propValueGet_by_prop_id:
  "tx (snd (propValueGet n s prop_id)) =
     tx s @ encode (encode_packet CMD_PROP_VALUE_GET (encode_i prop_id)) \<and>
   (prop_id > 0xFFFF \<longrightarrow> (\<exists>e. fst (propValueGet n s prop_id) = Inl e)) \<and>
   (fst (sendHdlcPacket n s (encode_packet CMD_PROP_VALUE_GET (encode_i prop_id))) = (0, Some resp) \<longrightarrow>
      fst (propValueGet n s prop_id) =
        (if prop_id > 0xFFFF then Inl (Exception ''prop_id is more than 0xFFFF. Not sure what to do'')
         else if prop_id > 0xFF then Inr (drop 4 resp)
         else Inr (drop 3 resp))) \<and>
   (fst (propValueGet n s prop_id) = Inr v \<longrightarrow>
      prop_id \<le> 0xFFFF \<and>
      (\<exists>resp. fst (sendHdlcPacket n s (encode_packet CMD_PROP_VALUE_GET (encode_i prop_id))) = (0, Some resp) \<and>
         v = (if prop_id \<le> 0xFF then drop 3 resp else drop 4 resp)))"
proof -
  let ?pkt = "encode_packet CMD_PROP_VALUE_GET (encode_i prop_id)"
  have st: "fst (sendHdlcPacket n s ?pkt) = (-1, None) \<or>
        (\<exists>resp. fst (sendHdlcPacket n s ?pkt) = (0, Some resp))"
    unfolding sendHdlcPacket_def by (rule getResponse_status)
  have a: "prop_id > 0xFFFF \<longrightarrow> (\<exists>e. fst (propValueGet n s prop_id) = Inl e)"
    using st by (auto simp: propValueGet_result)
  have b: "fst (sendHdlcPacket n s ?pkt) = (0, Some resp) \<longrightarrow>
      fst (propValueGet n s prop_id) =
        (if prop_id > 0xFFFF then Inl (Exception ''prop_id is more than 0xFFFF. Not sure what to do'')
         else if prop_id > 0xFF then Inr (drop 4 resp)
         else Inr (drop 3 resp))"
    by (simp add: propValueGet_result)
  have c: "fst (propValueGet n s prop_id) = Inr v \<longrightarrow>
      prop_id \<le> 0xFFFF \<and>
      (\<exists>resp. fst (sendHdlcPacket n s ?pkt) = (0, Some resp) \<and>
         v = (if prop_id \<le> 0xFF then drop 3 resp else drop 4 resp))"
    using st by (auto simp: propValueGet_result split: if_splits)
  from propValueGet_tx a b c show ?thesis by blast
qed

theorem propValueGet_by_prop_id_witness:
  "(65536 :: nat) > 0xFFFF \<and>
   fst (sendHdlcPacket 20 \<lparr>rx = [0x7E, 0x81, 0x06, 0x65, 0xFF, 0x7E], tx = []\<rparr>
          (encode_packet CMD_PROP_VALUE_GET (encode_i 65536))) = (0, Some [0x81, 0x06]) \<and>
   fst (propValueGet 20 \<lparr>rx = [0x7E, 0x81, 0x06, 0x65, 0xFF, 0x7E], tx = []\<rparr> 65536) =
     Inl (Exception ''prop_id is more than 0xFFFF. Not sure what to do'') \<and>
   tx (snd (propValueGet 20 \<lparr>rx = [0x7E, 0x81, 0x06, 0x65, 0xFF, 0x7E], tx = []\<rparr> 65536)) =
     encode (encode_packet CMD_PROP_VALUE_GET (encode_i 65536)) \<and>
   fst (sendHdlcPacket 20 \<lparr>rx = [0x7E, 0x81, 0x06, 0x02, 0x4F, 0x54, 0x4B, 0x61, 0x7E], tx = []\<rparr>
          (encode_packet CMD_PROP_VALUE_GET (encode_i 2))) = (0, Some [0x81, 0x06, 0x02, 0x4F, 0x54]) \<and>
   fst (propValueGet 20 \<lparr>rx = [0x7E, 0x81, 0x06, 0x02, 0x4F, 0x54, 0x4B, 0x61, 0x7E], tx = []\<rparr> 2) =
     Inr [0x4F, 0x54]"
proof -
  have h1: "fst (sendHdlcPacket 20 \<lparr>rx = [0x7E, 0x81, 0x06, 0x65, 0xFF, 0x7E], tx = []\<rparr> pkt)
      = (0, Some [0x81, 0x06])" for pkt
    using getResponse_run [of "[0x81, 0x06, 0x65, 0xFF]" 1 20 "[]" "encode pkt"]
    by (simp add: sendHdlcPacket_def serial_write_def hdlc_consts fcs_81_06)
  have h2: "fst (sendHdlcPacket 20 \<lparr>rx = [0x7E, 0x81, 0x06, 0x02, 0x4F, 0x54, 0x4B, 0x61, 0x7E], tx = []\<rparr> pkt)
      = (0, Some [0x81, 0x06, 0x02, 0x4F, 0x54])" for pkt
    using getResponse_run [of "[0x81, 0x06, 0x02, 0x4F, 0x54, 0x4B, 0x61]" 1 20 "[]" "encode pkt"]
    by (simp add: sendHdlcPacket_def serial_write_def hdlc_consts fcs_81_06_02)
  let ?s1 = "\<lparr>rx = [0x7E, 0x81, 0x06, 0x65, 0xFF, 0x7E], tx = []\<rparr> :: serial"
  let ?s2 = "\<lparr>rx = [0x7E, 0x81, 0x06, 0x02, 0x4F, 0x54, 0x4B, 0x61, 0x7E], tx = []\<rparr> :: serial"
  note t1 = propValueGet_by_prop_id [of 20 "?s1" 65536 "[0x81, 0x06]" "[]"]
  note t2 = propValueGet_by_prop_id [of 20 "?s2" 2 "[0x81, 0x06, 0x02, 0x4F, 0x54]" "[0x4F, 0x54]"]
  from t1 have a1: "tx (snd (propValueGet 20 ?s1 65536)) =
      tx ?s1 @ encode (encode_packet CMD_PROP_VALUE_GET (encode_i 65536))"
    by (rule conjunct1)
  from t1 h1 have "fst (propValueGet 20 ?s1 65536) =
      (if (65536 :: nat) > 0xFFFF then Inl (Exception ''prop_id is more than 0xFFFF. Not sure what to do'')
       else if (65536 :: nat) > 0xFF then Inr (drop 4 [0x81, 0x06])
       else Inr (drop 3 [0x81, 0x06]))"
    by blast
  then have a2: "fst (propValueGet 20 ?s1 65536) =
      Inl (Exception ''prop_id is more than 0xFFFF. Not sure what to do'')"
    by simp
  from t2 h2 have "fst (propValueGet 20 ?s2 2) =
      (if (2 :: nat) > 0xFFFF then Inl (Exception ''prop_id is more than 0xFFFF. Not sure what to do'')
       else if (2 :: nat) > 0xFF then Inr (drop 4 [0x81, 0x06, 0x02, 0x4F, 0x54])
       else Inr (drop 3 [0x81, 0x06, 0x02, 0x4F, 0x54]))"
    by blast
  then have b2: "fst (propValueGet 20 ?s2 2) = Inr [0x4F, 0x54]"
    by simp
  from a1 have a1': "tx (snd (propValueGet 20 ?s1 65536)) =
      encode (encode_packet CMD_PROP_VALUE_GET (encode_i 65536))"
    by simp
  have gt: "(65536 :: nat) > 0xFFFF" by simp
  from gt h1 a2 a1' h2 b2 show ?thesis by blast
qed

section \<open>Image name and serial sessions\<close>

lemmas controller_defs = flash_def restart_def probe_def probe_expect_def next_probe_reply_def
  emit_def truthy_def Let_def

lemma open_sessions_append: "open_sessions (es @ fs) = open_sessions es + open_sessions fs"
  by (induction es rule: open_sessions.induct) simp_all

text \<open>
  The test that the source does make holds as the claim says: a name that contains
  neither \<open>.gbl\<close> nor \<open>.ebl\<close> is refused with the abort message and nothing else
  happens.
\<close>

lemma flash_refuses_other_names:
  "\<not> str_in ''.gbl'' filename \<Longrightarrow> \<not> str_in ''.ebl'' filename \<Longrightarrow>
   flash cfg filename w =
     (Inr (), w\<lparr>events := events w @
        [Critical ''Aborted! Gecko bootloader accepts .gbl or .ebl images only.'']\<rparr>)"
  by (simp add: flash_def emit_def)

text \<open>
  C8. The name \<open>firmware.gbl.txt\<close> ends neither in \<open>.gbl\<close> nor in \<open>.ebl\<close>, yet
  \<open>flash\<close> does not refuse it, since \<open>.gbl\<close> occurs inside the name: with a device
  that sits in the bootloader, the serial port is opened, the bootloader is probed, the
  file is sent by XMODEM and the device rebooted.
\<close>

theorem flash_accepts_name_not_ending_in_gbl:
  "\<not> endswith ''firmware.gbl.txt'' ''.gbl'' \<and> \<not> endswith ''firmware.gbl.txt'' ''.ebl'' \<and>
   flash \<lparr>port = ''/dev/ttyUSB0'', baudrate = PyInt 115200\<rparr> ''firmware.gbl.txt''
     \<lparr>events = [], probe_replies = [MenuReply, EzspReply None], launch_reply = Inr 0,
      xmodem_ready = True, image_readable = True, xmodem_sent = True\<rparr>
   = (Inr (),
      \<lparr>events = [Open (PyInt 115200), Write [0x0D], Close,
                 Open (PyInt 115200), Write [0x0A], Write [0x31], Xmodem ''firmware.gbl.txt'',
                 Write [0x32], Close,
                 Open (PyInt 115200), Close],
       probe_replies = [], launch_reply = Inr 0,
       xmodem_ready = True, image_readable = True, xmodem_sent = True\<rparr>)"
  by (simp add: controller_defs endswith_def)

text \<open>
  Every path on which \<open>probe\<close> returns closes what it opened.
\<close>

lemma probe_returns_closed:
  "probe cfg w = (Inr r, w') \<Longrightarrow> open_sessions (events w') = open_sessions (events w)"
  by (auto simp: probe_def next_probe_reply_def emit_def Let_def open_sessions_append
      split: list.splits probe_reply.splits if_splits)

text \<open>
  \<open>restart\<close> returns \<open>-1\<close> with its session still open for a Thread adapter that
  gave no board name.
\<close>

lemma restart_thread_unnamed_leaves_session_open:
  "restart \<lparr>port = ''/dev/ttyUSB0'', baudrate = PyInt 115200\<rparr> ''btl''
     \<lparr>events = [], probe_replies = [SpinelReply None], launch_reply = Inr 0,
      xmodem_ready = True, image_readable = True, xmodem_sent = True\<rparr>
   = (Inr (Some (-1)),
      \<lparr>events = [Open (PyInt 115200), Close, Open (PyInt 115200),
                 Critical ''No Elelabs Thread product detected.''],
       probe_replies = [], launch_reply = Inr 0,
       xmodem_ready = True, image_readable = True, xmodem_sent = True\<rparr>)"
  by (simp add: controller_defs)

text \<open>
  C9. \<open>flash\<close> returns with the session it opened at 115200 still open, both when no
  \<open>C\<close> arrives in the ready wait and when the XMODEM transfer fails: in each run
  two sessions are opened and one is closed.
\<close>

theorem flash_returns_with_session_open:
  "flash \<lparr>port = ''/dev/ttyUSB0'', baudrate = PyInt 115200\<rparr> ''firmware.gbl''
     \<lparr>events = [], probe_replies = [MenuReply], launch_reply = Inr 0,
      xmodem_ready = False, image_readable = True, xmodem_sent = True\<rparr>
   = (Inr (),
      \<lparr>events = [Open (PyInt 115200), Write [0x0D], Close,
                 Open (PyInt 115200), Write [0x0A], Write [0x31],
                 Info ''Failed to restart into bootloader mode. Please see users guide.''],
       probe_replies = [], launch_reply = Inr 0,
       xmodem_ready = False, image_readable = True, xmodem_sent = True\<rparr>) \<and>
   open_sessions [Open (PyInt 115200), Write [0x0D], Close,
                 Open (PyInt 115200), Write [0x0A], Write [0x31],
                 Info ''Failed to restart into bootloader mode. Please see users guide.''] = 1 \<and>
   flash \<lparr>port = ''/dev/ttyUSB0'', baudrate = PyInt 115200\<rparr> ''firmware.gbl''
     \<lparr>events = [], probe_replies = [MenuReply], launch_reply = Inr 0,
      xmodem_ready = True, image_readable = True, xmodem_sent = False\<rparr>
   = (Inr (),
      \<lparr>events = [Open (PyInt 115200), Write [0x0D], Close,
                 Open (PyInt 115200), Write [0x0A], Write [0x31], Xmodem ''firmware.gbl'',
                 Critical ''Firmware upload failed. Please try a correct firmware image or restart in normal mode.''],
       probe_replies = [], launch_reply = Inr 0,
       xmodem_ready = True, image_readable = True, xmodem_sent = False\<rparr>) \<and>
   open_sessions [Open (PyInt 115200), Write [0x0D], Close,
                 Open (PyInt 115200), Write [0x0A], Write [0x31], Xmodem ''firmware.gbl'',
                 Critical ''Firmware upload failed. Please try a correct firmware image or restart in normal mode.''] = 1"
  by (simp add: controller_defs)

end
